theory Spec2Isabelle
  imports Complex_Main "HOL-Library.AList"
begin

section \<open>The evaluation callback of keras\_retinanet/callbacks/eval.py\<close>

text \<open>
  The file holds one class, \<^verbatim>\<open>Evaluate\<close>, with a constructor and the epoch-end
  handler \<^verbatim>\<open>on_epoch_end\<close>. The embedding follows the handler line by line.

  Numbers: Python's \<^verbatim>\<open>float\<close> is modelled by \<^typ>\<open>real\<close> (exact arithmetic, no
  rounding, no NaN and no infinities) and Python's \<^verbatim>\<open>int\<close> by \<^typ>\<open>int\<close>.
  Every statement below is a statement about the formulas the code evaluates, read in
  exact arithmetic.
\<close>

subsection \<open>Errors\<close>

text \<open>
  The handler has no \<^verbatim>\<open>try\<close>: an exception leaves it at the line that raised.
  The only exception the file's own arithmetic raises is \<^verbatim>\<open>ZeroDivisionError\<close>,
  at the true division of line 86 or line 88. \<open>CollaboratorError\<close> stands for whatever
  an external call (the evaluator of line 65, the summary writer and the plotting library
  of lines 91 to 120) raises.
\<close>

datatype py_error = ZeroDivisionError | CollaboratorError

subsection \<open>Data\<close>

text \<open>
  \<^verbatim>\<open>average_precisions\<close> is a dictionary from a class label to the pair
  \<^verbatim>\<open>(average_precision, num_annotations)\<close>. The handler only iterates over its
  \<^verbatim>\<open>items()\<close>, so the model is the list of items in iteration order.
\<close>

type_synonym label = nat
type_synonym per_class = "label \<times> real \<times> int"

text \<open>The four values the evaluator returns (line 65).\<close>

record evaluation =
  average_precisions :: "per_class list"
  time :: real
  ev_recall :: "real list"
  ev_precision :: "real list"

text \<open>
  The fields of the callback object that the handler reads or writes. \<^verbatim>\<open>recall\<close>,
  \<^verbatim>\<open>precision\<close> and \<^verbatim>\<open>mean_ap\<close> are not set by the constructor: \<open>None\<close> is
  the attribute that does not exist yet. \<open>tensorboard\<close> is the truth value of
  \<^verbatim>\<open>self.tensorboard\<close>, all that line 90 looks at. The remaining constructor
  arguments (generator, thresholds, save path) are only handed to the evaluator.
\<close>

record Evaluate =
  tensorboard :: bool
  weighted_average :: bool
  verbose :: int
  recall :: "real list option"
  precision :: "real list option"
  mean_ap :: "real option"

definition Evaluate_init :: "bool \<Rightarrow> bool \<Rightarrow> int \<Rightarrow> Evaluate" where
  "Evaluate_init tb wa vb =
     \<lparr>tensorboard = tb, weighted_average = wa, verbose = vb,
      recall = None, precision = None, mean_ap = None\<rparr>"

text \<open>
  The epoch log is a dictionary from metric name to value, shared with the caller. It is
  an association list in insertion order; \<^const>\<open>AList.update\<close> is Python's item
  assignment (replace the value of a key that is present, append a new key otherwise).
  Dictionaries live in a store, a list indexed by address, so that the caller's object
  and a fresh one can be told apart. An argument \<open>None\<close> is Python's \<^verbatim>\<open>None\<close>,
  \<open>Some a\<close> a reference to the dictionary at address \<open>a\<close>; a reference always
  designates an allocated object, \<open>a < length (heap s)\<close>.
\<close>

type_synonym logs = "(string \<times> real) list"

record state =
  self :: Evaluate
  heap :: "logs list"

subsection \<open>Line 62: \<^verbatim>\<open>logs = logs or {}\<close>\<close>

text \<open>
  \<^verbatim>\<open>None\<close> and the empty dictionary are both false, so in both cases the
  right operand is taken: a dictionary display allocates a new, empty object. The result
  is the store and the address the local variable \<^verbatim>\<open>logs\<close> is bound to.
\<close>

definition logs_or_fresh :: "logs list \<Rightarrow> nat option \<Rightarrow> logs list \<times> nat" where
  "logs_or_fresh h arg =
     (case arg of
        None \<Rightarrow> (h @ [[]], length h)
      | Some a \<Rightarrow> if h ! a = [] then (h @ [[]], length h) else (h, a))"

subsection \<open>Line 74: the precision envelope\<close>

text \<open>
  \<^verbatim>\<open>np.maximum.accumulate\<close> on a one-dimensional array is the running maximum:
  element \<open>i\<close> of the result is the maximum of elements \<open>0..i\<close> of the argument.
  \<^verbatim>\<open>[::-1]\<close> reverses.
\<close>

fun accumulate_from :: "'a::linorder \<Rightarrow> 'a list \<Rightarrow> 'a list" where
  "accumulate_from m [] = []"
| "accumulate_from m (x # xs) = max m x # accumulate_from (max m x) xs"

fun maximum_accumulate :: "'a::linorder list \<Rightarrow> 'a list" where
  "maximum_accumulate [] = []"
| "maximum_accumulate (x # xs) = x # accumulate_from x xs"

definition decreasing_max_precision :: "'a::linorder list \<Rightarrow> 'a list" where
  "decreasing_max_precision p = rev (maximum_accumulate (rev p))"

subsection \<open>Lines 77 to 84: the loop over the classes\<close>

text \<open>
  The loop appends each class's count to \<^verbatim>\<open>total_instances\<close> and its average
  precision to \<^verbatim>\<open>precisions\<close>. The \<^verbatim>\<open>print\<close> of lines 80 to 82 (and the one of
  lines 126 and 127) writes to standard output only and is left out; the name lookup
  \<^verbatim>\<open>label_to_name\<close> it makes on the generator is taken to return.
\<close>

fun per_class_loop :: "per_class list \<Rightarrow> int list \<Rightarrow> real list \<Rightarrow> int list \<times> real list" where
  "per_class_loop [] total_instances precisions = (total_instances, precisions)"
| "per_class_loop ((label, average_precision, num_annotations) # rest) total_instances precisions =
     per_class_loop rest (total_instances @ [num_annotations]) (precisions @ [average_precision])"

subsection \<open>Lines 85 to 88: the mean\<close>

text \<open>
  \<^verbatim>\<open>sum\<close> adds from the left, starting at 0. \<^verbatim>\<open>/\<close> is true division and
  raises on a zero divisor, whatever the dividend. In \<^verbatim>\<open>sum(x > 0 for x in ...)\<close> the
  booleans count as 1 and 0.
\<close>

definition py_sum :: "'a::monoid_add list \<Rightarrow> 'a" where
  "py_sum xs = foldl (+) 0 xs"

definition truediv :: "real \<Rightarrow> int \<Rightarrow> py_error + real" where
  "truediv a b = (if b = 0 then Inl ZeroDivisionError else Inr (a / real_of_int b))"

definition unweighted_divisor :: "int list \<Rightarrow> int" where
  "unweighted_divisor total_instances =
     py_sum (map (\<lambda>x. if x > 0 then 1 else 0) total_instances)"

definition compute_mean_ap :: "bool \<Rightarrow> int list \<Rightarrow> real list \<Rightarrow> py_error + real" where
  "compute_mean_ap weighted total_instances precisions =
     (if weighted
      then truediv (py_sum (map (\<lambda>(a, b). real_of_int a * b) (zip total_instances precisions)))
                   (py_sum total_instances)
      else truediv (py_sum precisions) (unweighted_divisor total_instances))"

subsection \<open>The handler\<close>

text \<open>
  The two external calls are parameters. \<open>evaluate\<close> is the outcome of the call of
  line 65: an exception or the four values. \<open>tb_write\<close> is the outcome of lines 91 to
  120, which run only when \<^verbatim>\<open>self.tensorboard\<close> is true: given the epoch, the mean,
  the recall and the envelope of line 74 they write summaries to an external sink and
  may raise; \<open>None\<close> is a normal return.

  The result pairs how the call ended (\<open>Inr ()\<close> for a normal return, \<open>Inl e\<close> for the
  exception \<open>e\<close>) with the state at that moment, since assignments made before an
  exception stay made.
\<close>

text \<open>Line 124, \<^verbatim>\<open>logs['mAP'] = self.mean_ap\<close>, on the dictionary at address \<open>logs\<close>.\<close>

definition store_mAP :: "nat \<Rightarrow> real \<Rightarrow> state \<Rightarrow> state" where
  "store_mAP logs m s = s\<lparr>heap := (heap s)[logs := AList.update ''mAP'' m (heap s ! logs)]\<rparr>"

text \<open>Lines 90 to 127, once \<^verbatim>\<open>self.mean_ap\<close> is assigned.\<close>

definition report :: "(nat \<Rightarrow> real \<Rightarrow> real list \<Rightarrow> real list \<Rightarrow> py_error option) \<Rightarrow>
   nat \<Rightarrow> nat \<Rightarrow> real \<Rightarrow> real list \<Rightarrow> real list \<Rightarrow> state \<Rightarrow> (py_error + unit) \<times> state" where
  "report tb_write epoch logs m rec envelope s =
     (case (if tensorboard (self s) then tb_write epoch m rec envelope else None) of
        Some e \<Rightarrow> (Inl e, s)
      | None \<Rightarrow> (Inr (), store_mAP logs m s))"

text \<open>Lines 74 to 127, once the evaluator has returned.\<close>

definition aggregate :: "(nat \<Rightarrow> real \<Rightarrow> real list \<Rightarrow> real list \<Rightarrow> py_error option) \<Rightarrow>
   nat \<Rightarrow> nat \<Rightarrow> evaluation \<Rightarrow> state \<Rightarrow> (py_error + unit) \<times> state" where
  "aggregate tb_write epoch logs ev s =
     (let envelope = decreasing_max_precision (ev_precision ev);
          (total_instances, precisions) = per_class_loop (average_precisions ev) [] []
      in case compute_mean_ap (weighted_average (self s)) total_instances precisions of
           Inl e \<Rightarrow> (Inl e, s)
         | Inr m \<Rightarrow>
             report tb_write epoch logs m (ev_recall ev) envelope
               (s\<lparr>self := (self s)\<lparr>mean_ap := Some m\<rparr>\<rparr>))"

definition on_epoch_end ::
  "(py_error + evaluation) \<Rightarrow> (nat \<Rightarrow> real \<Rightarrow> real list \<Rightarrow> real list \<Rightarrow> py_error option) \<Rightarrow>
   state \<Rightarrow> nat \<Rightarrow> nat option \<Rightarrow> (py_error + unit) \<times> state" where
  "on_epoch_end evaluate tb_write s epoch logs_arg =
     (let (h1, logs) = logs_or_fresh (heap s) logs_arg;
          s1 = s\<lparr>heap := h1\<rparr>
      in case evaluate of
           Inl e \<Rightarrow> (Inl e, s1)
         | Inr ev \<Rightarrow>
             aggregate tb_write epoch logs ev
               (s1\<lparr>self := (self s1)\<lparr>recall := Some (ev_recall ev),
                                        precision := Some (ev_precision ev)\<rparr>\<rparr>))"

subsection \<open>The specification's vocabulary\<close>

text \<open>
  The quantities the specification speaks of, written from its words, to compare the
  code with: a class's average precision and annotation count, a class "with
  annotations", the arithmetic mean of a list, and the two means of section 8.
\<close>

definition ap_of :: "per_class \<Rightarrow> real" where
  "ap_of c = fst (snd c)"

definition count_of :: "per_class \<Rightarrow> int" where
  "count_of c = snd (snd c)"

definition annotated :: "per_class \<Rightarrow> bool" where
  "annotated c = (count_of c > 0)"

definition unannotated :: "per_class \<Rightarrow> bool" where
  "unannotated c = (count_of c = 0)"

definition arithmetic_mean :: "real list \<Rightarrow> real" where
  "arithmetic_mean xs = sum_list xs / real (length xs)"

definition spec_unweighted :: "per_class list \<Rightarrow> real" where
  "spec_unweighted aps = arithmetic_mean (map ap_of (filter annotated aps))"

definition weighted_term :: "per_class \<Rightarrow> real" where
  "weighted_term c = ap_of c * real_of_int (count_of c)"

definition spec_weighted :: "per_class list \<Rightarrow> real" where
  "spec_weighted aps =
     sum_list (map weighted_term aps) / real_of_int (sum_list (map count_of aps))"

subsection \<open>Concrete collaborators and states for the examples\<close>

text \<open>A summary writer that never raises, and the state of a new callback with one store.\<close>

definition tb_silent :: "nat \<Rightarrow> real \<Rightarrow> real list \<Rightarrow> real list \<Rightarrow> py_error option" where
  "tb_silent epoch m rec envelope = None"

definition evaluated :: "per_class list \<Rightarrow> py_error + evaluation" where
  "evaluated aps =
     Inr \<lparr>average_precisions = aps, time = 0, ev_recall = [], ev_precision = []\<rparr>"

definition start :: "bool \<Rightarrow> logs list \<Rightarrow> state" where
  "start weighted h = \<lparr>self = Evaluate_init False weighted 1, heap = h\<rparr>"

text \<open>The callback \<open>s\<close> with the constructor's flag \<^verbatim>\<open>weighted_average\<close> set to \<open>w\<close>.\<close>

definition with_weighting :: "bool \<Rightarrow> state \<Rightarrow> state" where
  "with_weighting w s = s\<lparr>self := (self s)\<lparr>weighted_average := w\<rparr>\<rparr>"

section \<open>The aggregation, in closed form\<close>

lemma foldl_plus: "foldl (+) a xs = a + sum_list xs" for a :: "'a::monoid_add"
  by (induction xs arbitrary: a) (simp_all add: add.assoc)

lemma py_sum_sum_list: "py_sum xs = sum_list xs"
  by (simp add: py_sum_def foldl_plus)

lemma per_class_loop_eq:
  "per_class_loop aps ti ps = (ti @ map count_of aps, ps @ map ap_of aps)"
  by (induction aps ti ps rule: per_class_loop.induct) (simp_all add: count_of_def ap_of_def)

lemma unweighted_divisor_count:
  "unweighted_divisor (map count_of aps) = int (length (filter annotated aps))"
  by (induction aps) (simp_all add: unweighted_divisor_def py_sum_sum_list annotated_def)

lemma weighted_sum:
  "py_sum (map (\<lambda>(a, b). real_of_int a * b) (zip (map count_of aps) (map ap_of aps)))
   = sum_list (map weighted_term aps)"
  by (induction aps) (simp_all add: py_sum_sum_list weighted_term_def)

lemma compute_unweighted:
  "compute_mean_ap False (map count_of aps) (map ap_of aps) =
     truediv (sum_list (map ap_of aps)) (int (length (filter annotated aps)))"
  by (simp add: compute_mean_ap_def py_sum_sum_list unweighted_divisor_count)

lemma compute_weighted:
  "compute_mean_ap True (map count_of aps) (map ap_of aps) =
     truediv (sum_list (map weighted_term aps)) (sum_list (map count_of aps))"
  by (simp add: compute_mean_ap_def weighted_sum) (simp add: py_sum_sum_list)

lemma report_self: "self (snd (report tb epoch l m r e s)) = self s"
  by (simp add: report_def store_mAP_def split: option.splits)

lemma aggregate_mean_ap:
  "mean_ap (self (snd (aggregate tb epoch l ev s))) =
     (case compute_mean_ap (weighted_average (self s))
             (map count_of (average_precisions ev)) (map ap_of (average_precisions ev)) of
        Inl e \<Rightarrow> mean_ap (self s)
      | Inr m \<Rightarrow> Some m)"
  by (simp add: aggregate_def per_class_loop_eq report_self split: sum.splits)

lemma aggregate_raises:
  "compute_mean_ap (weighted_average (self s))
     (map count_of (average_precisions ev)) (map ap_of (average_precisions ev)) = Inl e
   \<Longrightarrow> aggregate tb epoch l ev s = (Inl e, s)"
  by (simp add: aggregate_def per_class_loop_eq)

text \<open>What the handler leaves in \<^verbatim>\<open>self.mean_ap\<close> once the evaluator has returned.\<close>

lemma on_epoch_end_mean_ap:
  "mean_ap (self (snd (on_epoch_end (Inr ev) tb s epoch la))) =
     (case compute_mean_ap (weighted_average (self s))
             (map count_of (average_precisions ev)) (map ap_of (average_precisions ev)) of
        Inl e \<Rightarrow> mean_ap (self s)
      | Inr m \<Rightarrow> Some m)"
  by (simp add: on_epoch_end_def aggregate_mean_ap split: prod.splits sum.splits)

text \<open>An exception of the division ends the handler before line 124.\<close>

lemma on_epoch_end_raises:
  assumes "compute_mean_ap (weighted_average (self s))
     (map count_of (average_precisions ev)) (map ap_of (average_precisions ev)) = Inl e"
  shows "fst (on_epoch_end (Inr ev) tb s epoch la) = Inl e"
    and "heap (snd (on_epoch_end (Inr ev) tb s epoch la)) = fst (logs_or_fresh (heap s) la)"
  using assms by (simp_all add: on_epoch_end_def aggregate_raises split: prod.splits)

lemma sum_list_split:
  "sum_list (map f xs) =
     sum_list (map f (filter P xs)) + sum_list (map f (filter (\<lambda>x. \<not> P x) xs))"
  for f :: "'a \<Rightarrow> real"
  by (induction xs) simp_all

lemma with_weighting_flag [simp]: "weighted_average (self (with_weighting w s)) = w"
  by (simp add: with_weighting_def)

section \<open>The unweighted mean\<close>

text \<open>
  What line 88 computes. When the flag \<^verbatim>\<open>weighted_average\<close> is false and at least
  one class has \<open>num_annotations > 0\<close>, the handler sets \<^verbatim>\<open>self.mean_ap\<close> to the sum
  of the average precisions of all classes divided by the number of classes with
  \<open>num_annotations > 0\<close>. That value is the arithmetic mean of the average precisions
  over the classes with \<open>num_annotations > 0\<close> exactly when the average precisions of
  the other classes add up to zero.
\<close>

lemma unweighted_closed_form:
  assumes "\<not> weighted_average (self s)"
    and "\<exists>c\<in>set (average_precisions ev). annotated c"
  shows "mean_ap (self (snd (on_epoch_end (Inr ev) tb s epoch la))) =
           Some (sum_list (map ap_of (average_precisions ev)) /
                 real (length (filter annotated (average_precisions ev))))
         \<and> (mean_ap (self (snd (on_epoch_end (Inr ev) tb s epoch la))) =
              Some (spec_unweighted (average_precisions ev))
            \<longleftrightarrow> sum_list (map ap_of (filter (\<lambda>c. \<not> annotated c) (average_precisions ev))) = 0)"
proof -
  let ?aps = "average_precisions ev"
  let ?n = "length (filter annotated ?aps)"
  from assms(2) have "filter annotated ?aps \<noteq> []"
    by (simp add: filter_empty_conv)
  then have pos: "real ?n \<noteq> 0"
    by simp
  then have "int ?n \<noteq> 0"
    by simp
  with assms(1) have m: "mean_ap (self (snd (on_epoch_end (Inr ev) tb s epoch la))) =
      Some (sum_list (map ap_of ?aps) / real ?n)"
    by (simp add: on_epoch_end_mean_ap compute_unweighted truediv_def)
  have "sum_list (map ap_of ?aps) / real ?n =
      spec_unweighted ?aps + sum_list (map ap_of (filter (\<lambda>c. \<not> annotated c) ?aps)) / real ?n"
    by (simp add: spec_unweighted_def arithmetic_mean_def add_divide_distrib
        sum_list_split [of ap_of ?aps annotated])
  with pos m show ?thesis
    by simp
qed

text \<open>
  Claim C1 fails on the code. For the mapping \<open>{0: (0.5, 2), 1: (0.25, 0)}\<close>, in which
  class \<open>0\<close> has annotations, the arithmetic mean of the average precisions over the
  classes with \<open>num_annotations > 0\<close> is \<open>0.5\<close>, and that is what the weighted path
  computes; the unweighted path sets \<^verbatim>\<open>self.mean_ap\<close> to \<open>0.75\<close>, because line 88
  leaves the classes without annotations out of the divisor and not out of the sum.
\<close>

theorem unweighted_mean_failing_input:
  "(\<exists>c\<in>set [(0, 1/2, 2), (1, 1/4, 0)]. annotated c)
   \<and> mean_ap (self (snd (on_epoch_end (evaluated [(0, 1/2, 2), (1, 1/4, 0)])
                             tb_silent (start False []) 0 None))) = Some (3/4)
   \<and> spec_unweighted [(0, 1/2, 2), (1, 1/4, 0)] = 1/2
   \<and> mean_ap (self (snd (on_epoch_end (evaluated [(0, 1/2, 2), (1, 1/4, 0)])
                             tb_silent (start True []) 0 None))) = Some (1/2)"
  by (simp add: on_epoch_end_mean_ap evaluated_def start_def Evaluate_init_def
      compute_mean_ap_def unweighted_divisor_def py_sum_def truediv_def
      spec_unweighted_def arithmetic_mean_def annotated_def count_of_def ap_of_def)

section \<open>The weighted mean\<close>

text \<open>
  Claim C2. When the flag \<^verbatim>\<open>weighted_average\<close> is true and the annotation counts
  add up to more than zero, the handler sets \<^verbatim>\<open>self.mean_ap\<close> to the sum over all
  classes of \<open>average_precision * num_annotations\<close> divided by the sum over all
  classes of \<open>num_annotations\<close>.
\<close>

theorem weighted_mean:
  assumes "weighted_average (self s)"
    and "0 < sum_list (map count_of (average_precisions ev))"
  shows "mean_ap (self (snd (on_epoch_end (Inr ev) tb s epoch la))) =
           Some (spec_weighted (average_precisions ev))"
  using assms
  by (simp add: on_epoch_end_mean_ap compute_weighted truediv_def spec_weighted_def)

theorem weighted_mean_witness:
  "weighted_average (self (start True []))
   \<and> 0 < sum_list (map count_of [(0, 1/2, 1), (1, 1/4, 3)])
   \<and> mean_ap (self (snd (on_epoch_end (evaluated [(0, 1/2, 1), (1, 1/4, 3)])
                             tb_silent (start True []) 0 None))) = Some (5/16)
   \<and> spec_weighted [(0, 1/2, 1), (1, 1/4, 3)] = 5/16"
proof -
  let ?ev = "\<lparr>average_precisions = [(0, 1/2, 1), (1, 1/4, 3)],
              time = 0, ev_recall = [], ev_precision = []\<rparr>"
  have h1: "weighted_average (self (start True []))"
    by (simp add: start_def Evaluate_init_def)
  have h2: "0 < sum_list (map count_of (average_precisions ?ev))"
    by (simp add: count_of_def)
  show ?thesis
    using h1 h2 weighted_mean [OF h1 h2, of tb_silent 0 None]
    by (simp add: evaluated_def spec_weighted_def weighted_term_def count_of_def ap_of_def)
qed

section \<open>The two examples of the specification\<close>

text \<open>
  Claim C3 fails on the code in its unweighted half. For the mapping
  \<open>{A: (AP=0.8, n=10), B: (AP=0.4, n=0)}\<close> (labels \<open>0\<close> and \<open>1\<close>) the claim gives
  \<open>0.8\<close> for both means. The weighted path computes \<open>0.8\<close>. The unweighted path
  computes \<open>1.2\<close> in exact arithmetic (the double \<open>1.2000000000000002\<close> in Python):
  line 88 leaves class B out of the divisor and not out of the sum. This holds whatever
  the state before the call, the summary writer, the epoch and the log argument are.
\<close>

theorem example_zero_count_class:
  "mean_ap (self (snd (on_epoch_end
      (Inr \<lparr>average_precisions = [(0, 8/10, 10), (1, 4/10, 0)],
            time = t, ev_recall = r, ev_precision = p\<rparr>)
      tb (with_weighting False s) epoch la))) = Some (12/10)
   \<and> mean_ap (self (snd (on_epoch_end
      (Inr \<lparr>average_precisions = [(0, 8/10, 10), (1, 4/10, 0)],
            time = t, ev_recall = r, ev_precision = p\<rparr>)
      tb (with_weighting True s) epoch la))) = Some (8/10)"
  by (simp add: on_epoch_end_mean_ap compute_mean_ap_def unweighted_divisor_def py_sum_def
      truediv_def count_of_def ap_of_def)

text \<open>
  Claim C4. For the mapping \<open>{A: (AP=0.5, n=5), B: (AP=0.3, n=5)}\<close> (labels \<open>0\<close> and
  \<open>1\<close>) the unweighted mAP and the weighted mAP are both \<open>0.4\<close>, whatever the state
  before the call, the summary writer, the epoch and the log argument are.
\<close>

theorem example_equal_counts:
  "mean_ap (self (snd (on_epoch_end
      (Inr \<lparr>average_precisions = [(0, 5/10, 5), (1, 3/10, 5)],
            time = t, ev_recall = r, ev_precision = p\<rparr>)
      tb (with_weighting False s) epoch la))) = Some (4/10)
   \<and> mean_ap (self (snd (on_epoch_end
      (Inr \<lparr>average_precisions = [(0, 5/10, 5), (1, 3/10, 5)],
            time = t, ev_recall = r, ev_precision = p\<rparr>)
      tb (with_weighting True s) epoch la))) = Some (4/10)"
  by (simp add: on_epoch_end_mean_ap compute_mean_ap_def unweighted_divisor_def py_sum_def
      truediv_def count_of_def ap_of_def)

section \<open>Division by zero\<close>

lemma no_annotated: "list_all unannotated aps \<Longrightarrow> filter annotated aps = []"
  by (induction aps) (simp_all add: annotated_def unannotated_def)

text \<open>
  Claim C6. When the flag \<^verbatim>\<open>weighted_average\<close> is false and every class of the
  mapping has \<open>num_annotations = 0\<close> (the empty mapping included), the handler ends with
  \<^verbatim>\<open>ZeroDivisionError\<close>. No default value is produced: \<^verbatim>\<open>self.mean_ap\<close> is what
  it was before the call, and the store is as line 62 left it, with no \<^verbatim>\<open>mAP\<close>
  entry written.
\<close>

theorem unweighted_all_zero:
  assumes "\<not> weighted_average (self s)"
    and "list_all unannotated (average_precisions ev)"
  shows "fst (on_epoch_end (Inr ev) tb s epoch la) = Inl ZeroDivisionError
         \<and> mean_ap (self (snd (on_epoch_end (Inr ev) tb s epoch la))) = mean_ap (self s)
         \<and> heap (snd (on_epoch_end (Inr ev) tb s epoch la)) = fst (logs_or_fresh (heap s) la)"
proof -
  from assms have "compute_mean_ap (weighted_average (self s))
      (map count_of (average_precisions ev)) (map ap_of (average_precisions ev))
    = Inl ZeroDivisionError"
    by (simp add: compute_unweighted truediv_def no_annotated)
  then show ?thesis
    by (simp add: on_epoch_end_raises on_epoch_end_mean_ap)
qed

theorem unweighted_all_zero_witness:
  "\<not> weighted_average (self (start False [[(''loss'', 1)]]))
   \<and> list_all unannotated [(0, 1/2, 0), (1, 1/4, 0)]
   \<and> fst (on_epoch_end (evaluated [(0, 1/2, 0), (1, 1/4, 0)]) tb_silent
            (start False [[(''loss'', 1)]]) 0 (Some 0)) = Inl ZeroDivisionError
   \<and> mean_ap (self (snd (on_epoch_end (evaluated [(0, 1/2, 0), (1, 1/4, 0)]) tb_silent
            (start False [[(''loss'', 1)]]) 0 (Some 0)))) = None
   \<and> heap (snd (on_epoch_end (evaluated [(0, 1/2, 0), (1, 1/4, 0)]) tb_silent
            (start False [[(''loss'', 1)]]) 0 (Some 0))) = [[(''loss'', 1)]]"
proof -
  let ?ev = "\<lparr>average_precisions = [(0, 1/2, 0), (1, 1/4, 0)],
              time = 0, ev_recall = [], ev_precision = []\<rparr>"
  have h1: "\<not> weighted_average (self (start False [[(''loss'', 1)]]))"
    by (simp add: start_def Evaluate_init_def)
  have h2: "list_all unannotated (average_precisions ?ev)"
    by (simp add: unannotated_def count_of_def)
  show ?thesis
    using h1 h2 unweighted_all_zero [OF h1 h2, of tb_silent 0 "Some 0"]
    by (simp add: evaluated_def start_def Evaluate_init_def logs_or_fresh_def)
qed

text \<open>
  Claim C8. When the flag \<^verbatim>\<open>weighted_average\<close> is true and the annotation counts of
  the mapping add up to zero (the empty mapping included), the handler ends with
  \<^verbatim>\<open>ZeroDivisionError\<close> as well; \<^verbatim>\<open>self.mean_ap\<close> is what it was before the
  call and no \<^verbatim>\<open>mAP\<close> entry is written.
\<close>

theorem weighted_total_zero:
  assumes "weighted_average (self s)"
    and "sum_list (map count_of (average_precisions ev)) = 0"
  shows "fst (on_epoch_end (Inr ev) tb s epoch la) = Inl ZeroDivisionError
         \<and> mean_ap (self (snd (on_epoch_end (Inr ev) tb s epoch la))) = mean_ap (self s)
         \<and> heap (snd (on_epoch_end (Inr ev) tb s epoch la)) = fst (logs_or_fresh (heap s) la)"
proof -
  from assms have "compute_mean_ap (weighted_average (self s))
      (map count_of (average_precisions ev)) (map ap_of (average_precisions ev))
    = Inl ZeroDivisionError"
    by (simp add: compute_weighted truediv_def)
  then show ?thesis
    by (simp add: on_epoch_end_raises on_epoch_end_mean_ap)
qed

theorem weighted_total_zero_witness:
  "weighted_average (self (start True [[(''loss'', 1)]]))
   \<and> sum_list (map count_of []) = 0
   \<and> fst (on_epoch_end (evaluated []) tb_silent
            (start True [[(''loss'', 1)]]) 0 (Some 0)) = Inl ZeroDivisionError
   \<and> mean_ap (self (snd (on_epoch_end (evaluated []) tb_silent
            (start True [[(''loss'', 1)]]) 0 (Some 0)))) = None
   \<and> heap (snd (on_epoch_end (evaluated []) tb_silent
            (start True [[(''loss'', 1)]]) 0 (Some 0))) = [[(''loss'', 1)]]"
proof -
  let ?ev = "\<lparr>average_precisions = [], time = 0, ev_recall = [], ev_precision = []\<rparr>"
  have h1: "weighted_average (self (start True [[(''loss'', 1)]]))"
    by (simp add: start_def Evaluate_init_def)
  have h2: "sum_list (map count_of (average_precisions ?ev)) = 0"
    by simp
  show ?thesis
    using h1 h2 weighted_total_zero [OF h1 h2, of tb_silent 0 "Some 0"]
    by (simp add: evaluated_def start_def Evaluate_init_def logs_or_fresh_def)
qed

section \<open>The divisor of the unweighted mean\<close>

text \<open>
  Claim C7. The divisor of line 88, computed from the list \<^verbatim>\<open>total_instances\<close> the
  loop builds, is the number of classes with \<open>num_annotations > 0\<close>; removing the
  classes with \<open>num_annotations = 0\<close> from the mapping leaves it unchanged; and the
  unweighted mean is the division of the sum of all average precisions by that number.
\<close>

theorem divisor_counts_annotated:
  "unweighted_divisor (fst (per_class_loop aps [] [])) = int (length (filter annotated aps))
   \<and> unweighted_divisor (fst (per_class_loop (filter (\<lambda>c. \<not> unannotated c) aps) [] [])) =
       unweighted_divisor (fst (per_class_loop aps [] []))
   \<and> compute_mean_ap False (fst (per_class_loop aps [] [])) (snd (per_class_loop aps [] [])) =
       truediv (sum_list (map ap_of aps)) (int (length (filter annotated aps)))"
proof -
  have "filter annotated (filter (\<lambda>c. \<not> unannotated c) aps) = filter annotated aps"
    by (induction aps) (auto simp: annotated_def unannotated_def)
  then show ?thesis
    by (simp add: per_class_loop_eq unweighted_divisor_count compute_unweighted)
qed

section \<open>The precision envelope\<close>

lemma accumulate_from_ge: "y \<in> set (accumulate_from m xs) \<Longrightarrow> m \<le> y"
proof (induction xs arbitrary: m)
  case Nil
  then show ?case by simp
next
  case (Cons x xs)
  from Cons.prems have "y = max m x \<or> y \<in> set (accumulate_from (max m x) xs)"
    by simp
  then show ?case
    using Cons.IH [of "max m x"] by (auto simp: max.bounded_iff)
qed

lemma accumulate_from_sorted: "sorted (accumulate_from m xs)"
  by (induction xs arbitrary: m) (auto dest: accumulate_from_ge)

lemma accumulate_from_above: "list_all2 (\<le>) xs (accumulate_from m xs)"
  by (induction xs arbitrary: m) auto

lemma maximum_accumulate_sorted: "sorted (maximum_accumulate xs)"
  by (cases xs) (auto simp: accumulate_from_sorted dest: accumulate_from_ge)

lemma maximum_accumulate_above: "list_all2 (\<le>) xs (maximum_accumulate xs)"
  by (cases xs) (auto simp: accumulate_from_above)

text \<open>
  Claim C9. For every precision sequence \<open>p\<close>, the sequence
  \<^verbatim>\<open>decreasing_max_precision\<close> of line 74 is non-increasing from left to right, has
  the length of \<open>p\<close> and is pointwise greater than or equal to \<open>p\<close>.
\<close>

theorem envelope_decreasing_above:
  "sorted_wrt (\<ge>) (decreasing_max_precision p)
   \<and> list_all2 (\<le>) p (decreasing_max_precision p)"
proof
  have "sorted_wrt (\<le>) (maximum_accumulate (rev p))"
    using maximum_accumulate_sorted [of "rev p"] by simp
  then show "sorted_wrt (\<ge>) (decreasing_max_precision p)"
    by (simp add: decreasing_max_precision_def sorted_wrt_rev)
  have "list_all2 (\<le>) (rev (rev p)) (rev (maximum_accumulate (rev p)))"
    unfolding list_all2_rev by (rule maximum_accumulate_above)
  then show "list_all2 (\<le>) p (decreasing_max_precision p)"
    by (simp add: decreasing_max_precision_def)
qed

section \<open>The epoch log\<close>

lemma update_absent: "k \<notin> fst ` set al \<Longrightarrow> AList.update k v al = al @ [(k, v)]"
  by (induction al) auto

text \<open>
  Claim C5, as the code has it. Let the log passed to the handler be a non-empty
  dictionary. When the handler returns normally, then with \<open>m\<close> the value of
  \<^verbatim>\<open>self.mean_ap\<close>: the store differs from the one before the call only in that
  dictionary, which went through the item assignment \<^verbatim>\<open>logs['mAP'] = m\<close>; the key
  \<^verbatim>\<open>mAP\<close> maps to \<open>m\<close> and every other key maps to what it mapped to before; and
  when \<^verbatim>\<open>mAP\<close> was not a key before, the dictionary is the old one with the one
  entry \<^verbatim>\<open>mAP\<close> appended, while a key \<^verbatim>\<open>mAP\<close> that was there is overwritten and
  the keys stay the same. When the handler ends with an exception, whichever line raised
  it, the store is the one before the call: nothing is written.
\<close>

theorem log_gains_mAP:
  assumes "a < length (heap s)"
    and "heap s ! a \<noteq> []"
  shows "case fst (on_epoch_end ev tb s epoch (Some a)) of
           Inl e \<Rightarrow> heap (snd (on_epoch_end ev tb s epoch (Some a))) = heap s
         | Inr u \<Rightarrow>
             \<exists>m. mean_ap (self (snd (on_epoch_end ev tb s epoch (Some a)))) = Some m
               \<and> heap (snd (on_epoch_end ev tb s epoch (Some a))) =
                   (heap s)[a := AList.update ''mAP'' m (heap s ! a)]
               \<and> map_of (heap (snd (on_epoch_end ev tb s epoch (Some a))) ! a) =
                   (map_of (heap s ! a))(''mAP'' \<mapsto> m)
               \<and> (if ''mAP'' \<in> fst ` set (heap s ! a)
                   then map fst (heap (snd (on_epoch_end ev tb s epoch (Some a))) ! a) =
                        map fst (heap s ! a)
                   else heap (snd (on_epoch_end ev tb s epoch (Some a))) ! a =
                        heap s ! a @ [(''mAP'', m)])"
proof (cases "fst (on_epoch_end ev tb s epoch (Some a))")
  case (Inl e)
  with assms have "heap (snd (on_epoch_end ev tb s epoch (Some a))) = heap s"
    by (auto simp: on_epoch_end_def logs_or_fresh_def aggregate_def report_def store_mAP_def
          split: sum.splits prod.splits option.splits if_splits)
  with Inl show ?thesis
    by simp
next
  case (Inr u)
  let ?s' = "snd (on_epoch_end ev tb s epoch (Some a))"
  from assms Inr have "\<exists>m. mean_ap (self ?s') = Some m
      \<and> heap ?s' = (heap s)[a := AList.update ''mAP'' m (heap s ! a)]"
    by (auto simp: on_epoch_end_def logs_or_fresh_def aggregate_def report_def store_mAP_def
          split: sum.splits prod.splits option.splits if_splits)
  then obtain m where m: "mean_ap (self ?s') = Some m"
    and h: "heap ?s' = (heap s)[a := AList.update ''mAP'' m (heap s ! a)]"
    by blast
  from h assms(1) have l: "heap ?s' ! a = AList.update ''mAP'' m (heap s ! a)"
    by simp
  have "map_of (heap ?s' ! a) = (map_of (heap s ! a))(''mAP'' \<mapsto> m)"
    by (simp add: l update_conv')
  moreover have "if ''mAP'' \<in> fst ` set (heap s ! a)
      then map fst (heap ?s' ! a) = map fst (heap s ! a)
      else heap ?s' ! a = heap s ! a @ [(''mAP'', m)]"
    by (simp add: l update_keys update_absent)
  ultimately have "\<exists>m. mean_ap (self ?s') = Some m
      \<and> heap ?s' = (heap s)[a := AList.update ''mAP'' m (heap s ! a)]
      \<and> map_of (heap ?s' ! a) = (map_of (heap s ! a))(''mAP'' \<mapsto> m)
      \<and> (if ''mAP'' \<in> fst ` set (heap s ! a)
          then map fst (heap ?s' ! a) = map fst (heap s ! a)
          else heap ?s' ! a = heap s ! a @ [(''mAP'', m)])"
    using m h by blast
  with Inr show ?thesis
    by simp
qed

text \<open>
  The theorem at a log \<open>{loss: 1}\<close>: with one class \<open>(0.5, 2)\<close> the handler returns
  normally and the log becomes \<open>{loss: 1, mAP: 0.5}\<close>; with the empty mapping under the
  weighted flag it ends with \<^verbatim>\<open>ZeroDivisionError\<close> and the log is \<open>{loss: 1}\<close> still.
\<close>

theorem log_gains_mAP_witness:
  "(0::nat) < length (heap (start False [[(''loss'', 1)]]))
   \<and> heap (start False [[(''loss'', 1)]]) ! 0 \<noteq> []
   \<and> fst (on_epoch_end (evaluated [(0, 1/2, 2)]) tb_silent
            (start False [[(''loss'', 1)]]) 0 (Some 0)) = Inr ()
   \<and> mean_ap (self (snd (on_epoch_end (evaluated [(0, 1/2, 2)]) tb_silent
            (start False [[(''loss'', 1)]]) 0 (Some 0)))) = Some (1/2)
   \<and> heap (snd (on_epoch_end (evaluated [(0, 1/2, 2)]) tb_silent
            (start False [[(''loss'', 1)]]) 0 (Some 0))) = [[(''loss'', 1), (''mAP'', 1/2)]]
   \<and> (0::nat) < length (heap (start True [[(''loss'', 1)]]))
   \<and> heap (start True [[(''loss'', 1)]]) ! 0 \<noteq> []
   \<and> fst (on_epoch_end (evaluated []) tb_silent
            (start True [[(''loss'', 1)]]) 0 (Some 0)) = Inl ZeroDivisionError
   \<and> heap (snd (on_epoch_end (evaluated []) tb_silent
            (start True [[(''loss'', 1)]]) 0 (Some 0))) = [[(''loss'', 1)]]"
proof -
  let ?s = "start False [[(''loss'', 1)]]"
  let ?r = "on_epoch_end (evaluated [(0, 1/2, 2)]) tb_silent ?s 0 (Some 0)"
  let ?t = "start True [[(''loss'', 1)]]"
  let ?q = "on_epoch_end (evaluated []) tb_silent ?t 0 (Some 0)"
  have h1: "0 < length (heap ?s)" and h2: "heap ?s ! 0 \<noteq> []"
    by (simp_all add: start_def)
  have k1: "0 < length (heap ?t)" and k2: "heap ?t ! 0 \<noteq> []"
    by (simp_all add: start_def)
  have r: "fst ?r = Inr ()" "mean_ap (self (snd ?r)) = Some (1/2)"
    by (simp_all add: on_epoch_end_def logs_or_fresh_def aggregate_def report_def store_mAP_def
        evaluated_def start_def Evaluate_init_def tb_silent_def compute_mean_ap_def
        unweighted_divisor_def py_sum_def truediv_def)
  have q: "fst ?q = Inl ZeroDivisionError"
    by (simp add: on_epoch_end_def logs_or_fresh_def aggregate_def
        evaluated_def start_def Evaluate_init_def compute_mean_ap_def py_sum_def truediv_def)
  from log_gains_mAP [OF h1 h2, of "evaluated [(0, 1/2, 2)]" tb_silent 0] r(1)
  have "\<exists>m. mean_ap (self (snd ?r)) = Some m
      \<and> heap (snd ?r) = (heap ?s)[0 := AList.update ''mAP'' m (heap ?s ! 0)]"
    by simp blast
  then obtain m where "mean_ap (self (snd ?r)) = Some m"
    and "heap (snd ?r) = (heap ?s)[0 := AList.update ''mAP'' m (heap ?s ! 0)]"
    by blast
  with r(2) have a: "heap (snd ?r) = [[(''loss'', 1), (''mAP'', 1/2)]]"
    by (simp add: start_def)
  from log_gains_mAP [OF k1 k2, of "evaluated []" tb_silent 0] q
  have b: "heap (snd ?q) = [[(''loss'', 1)]]"
    by (simp add: start_def)
  from h1 h2 k1 k2 r q a b show ?thesis
    by simp
qed

text \<open>
  The claim as the specification words it, for every log and every call, fails in three
  places. At the empty log the handler returns normally with \<^verbatim>\<open>self.mean_ap = 0.5\<close>
  and the caller's dictionary, at address \<open>0\<close>, is still empty. At the log
  \<open>{mAP: 0}\<close> the handler returns normally and the log is \<open>{mAP: 0.5}\<close>: no entry is
  new and the key that was there has lost its value. At the log \<open>{loss: 1}\<close> with the
  empty mapping of classes the handler ends with \<^verbatim>\<open>ZeroDivisionError\<close> and the log has
  no key \<^verbatim>\<open>mAP\<close>.
\<close>

theorem log_gains_mAP_counterexample:
  "fst (on_epoch_end (evaluated [(0, 1/2, 2)]) tb_silent (start False [[]]) 0 (Some 0)) = Inr ()
   \<and> mean_ap (self (snd (on_epoch_end (evaluated [(0, 1/2, 2)]) tb_silent
                           (start False [[]]) 0 (Some 0)))) = Some (1/2)
   \<and> heap (snd (on_epoch_end (evaluated [(0, 1/2, 2)]) tb_silent
                           (start False [[]]) 0 (Some 0))) ! 0 = []
   \<and> fst (on_epoch_end (evaluated [(0, 1/2, 2)]) tb_silent
            (start False [[(''mAP'', 0)]]) 0 (Some 0)) = Inr ()
   \<and> heap (snd (on_epoch_end (evaluated [(0, 1/2, 2)]) tb_silent
            (start False [[(''mAP'', 0)]]) 0 (Some 0))) ! 0 = [(''mAP'', 1/2)]
   \<and> fst (on_epoch_end (evaluated []) tb_silent
            (start False [[(''loss'', 1)]]) 0 (Some 0)) = Inl ZeroDivisionError
   \<and> map_of (heap (snd (on_epoch_end (evaluated []) tb_silent
            (start False [[(''loss'', 1)]]) 0 (Some 0))) ! 0) ''mAP'' = None"
  by (simp add: on_epoch_end_def logs_or_fresh_def aggregate_def report_def store_mAP_def
      evaluated_def start_def Evaluate_init_def tb_silent_def compute_mean_ap_def
      unweighted_divisor_def py_sum_def truediv_def)

text \<open>
  Claim C10. When the log argument is \<^verbatim>\<open>None\<close> or a reference to an empty
  dictionary, line 62 allocates a new dictionary: after the call the store is one object
  longer, every object that was there before the call is unchanged, so the caller's
  empty dictionary is still empty and has no key \<^verbatim>\<open>mAP\<close>. The new object is empty
  when the handler ended with an exception and holds the one entry \<^verbatim>\<open>mAP\<close>, with
  the value of \<^verbatim>\<open>self.mean_ap\<close>, when it returned normally.
\<close>

theorem empty_logs_not_mutated:
  assumes "case la of None \<Rightarrow> True | Some a \<Rightarrow> a < length (heap s) \<and> heap s ! a = []"
  shows "length (heap (snd (on_epoch_end ev tb s epoch la))) = Suc (length (heap s))
         \<and> take (length (heap s)) (heap (snd (on_epoch_end ev tb s epoch la))) = heap s
         \<and> (case la of None \<Rightarrow> True
             | Some a \<Rightarrow> heap (snd (on_epoch_end ev tb s epoch la)) ! a = []
                 \<and> map_of (heap (snd (on_epoch_end ev tb s epoch la)) ! a) ''mAP'' = None)
         \<and> (case fst (on_epoch_end ev tb s epoch la) of
               Inl e \<Rightarrow> heap (snd (on_epoch_end ev tb s epoch la)) ! length (heap s) = []
             | Inr u \<Rightarrow> \<exists>m. mean_ap (self (snd (on_epoch_end ev tb s epoch la))) = Some m
                 \<and> heap (snd (on_epoch_end ev tb s epoch la)) ! length (heap s) = [(''mAP'', m)])"
  using assms
  by (auto simp: on_epoch_end_def logs_or_fresh_def aggregate_def report_def store_mAP_def
        Let_def nth_append split: sum.splits prod.splits option.splits if_splits)

theorem empty_logs_not_mutated_witness:
  "(0::nat) < length (heap (start True [[]]))
   \<and> heap (start True [[]]) ! 0 = []
   \<and> length (heap (snd (on_epoch_end (evaluated [(0, 1/2, 2)]) tb_silent
                  (start True [[]]) 0 (Some 0)))) = 2
   \<and> heap (snd (on_epoch_end (evaluated [(0, 1/2, 2)]) tb_silent
                  (start True [[]]) 0 (Some 0))) ! 0 = []
   \<and> heap (snd (on_epoch_end (evaluated [(0, 1/2, 2)]) tb_silent
                  (start True [[]]) 0 (Some 0))) ! 1 = [(''mAP'', 1/2)]"
proof -
  let ?s = "start True [[]]"
  let ?r = "on_epoch_end (evaluated [(0, 1/2, 2)]) tb_silent ?s 0 (Some 0)"
  have h: "case Some 0 of None \<Rightarrow> True | Some a \<Rightarrow> a < length (heap ?s) \<and> heap ?s ! a = []"
    by (simp add: start_def)
  have r: "fst ?r = Inr ()" "mean_ap (self (snd ?r)) = Some (1/2)"
    by (simp_all add: on_epoch_end_def logs_or_fresh_def aggregate_def report_def store_mAP_def
        evaluated_def start_def Evaluate_init_def tb_silent_def compute_mean_ap_def
        py_sum_def truediv_def)
  note t = empty_logs_not_mutated [OF h, of "evaluated [(0, 1/2, 2)]" tb_silent 0]
  from t have len: "length (heap (snd ?r)) = 2" and old: "heap (snd ?r) ! 0 = []"
    by (simp_all add: start_def)
  from t r(1) have "\<exists>m. mean_ap (self (snd ?r)) = Some m
      \<and> heap (snd ?r) ! length (heap ?s) = [(''mAP'', m)]"
    by simp
  then obtain m where "mean_ap (self (snd ?r)) = Some m"
    and "heap (snd ?r) ! length (heap ?s) = [(''mAP'', m)]"
    by blast
  with r(2) have new: "heap (snd ?r) ! 1 = [(''mAP'', 1/2)]"
    by (simp add: start_def)
  from len old new show ?thesis
    by (simp add: start_def)
qed

end
